theory Spec2Isabelle
  imports Main "HOL-Library.Word" "HOL-Library.Sublist"
begin

unbundle bit_operations_syntax

section \<open>Python values, strings and exceptions\<close>

text \<open>
  A Python \<^verbatim>\<open>str\<close> is a \<^typ>\<open>string\<close>: the bytes of its UTF-8 encoding, so that
  concatenation, splitting at a line feed and containment are those of the source.
  The values a request field can hold are the JSON scalars \<^verbatim>\<open>null\<close>, booleans, integers
  and strings (form fields are always strings). Fractional numbers, arrays and objects
  as field values are outside the model.
\<close>

datatype pyval = PNone | PBool bool | PInt int | PStr string

text \<open>\<^verbatim>\<open>str(n)\<close> for an integer: decimal digits, a minus sign when negative.\<close>

fun str_nat :: "nat \<Rightarrow> string" where
  "str_nat n =
     (if n < 10 then [''0123456789'' ! n]
      else str_nat (n div 10) @ [''0123456789'' ! (n mod 10)])"

definition str_int :: "int \<Rightarrow> string" where
  "str_int i = (if i < 0 then ''-'' @ str_nat (nat (- i)) else str_nat (nat i))"

text \<open>What an f-string field \<^verbatim>\<open>{v}\<close> prints: \<^verbatim>\<open>str(v)\<close>.\<close>

fun py_str :: "pyval \<Rightarrow> string" where
  "py_str PNone = ''None''"
| "py_str (PBool b) = (if b then ''True'' else ''False'')"
| "py_str (PInt i) = str_int i"
| "py_str (PStr s) = s"

text \<open>\<^verbatim>\<open>bool(v)\<close>, also the test of \<^verbatim>\<open>if not v\<close>.\<close>

fun truthy :: "pyval \<Rightarrow> bool" where
  "truthy PNone = False"
| "truthy (PBool b) = b"
| "truthy (PInt i) = (i \<noteq> 0)"
| "truthy (PStr s) = (s \<noteq> [])"

fun type_name :: "pyval \<Rightarrow> string" where
  "type_name PNone = ''NoneType''"
| "type_name (PBool b) = ''bool''"
| "type_name (PInt i) = ''int''"
| "type_name (PStr s) = ''str''"

text \<open>
  Exceptions are values. \<open>NameError n\<close>: the name \<open>n\<close> is not defined.
  \<open>AttributeError t a\<close>: an object of type \<open>t\<close> has no attribute \<open>a\<close>.
  \<open>Raised m\<close>: an exception raised by a collaborator (Flask, OpenAI, Stripe), with the
  text \<^verbatim>\<open>str(e)\<close> gives for it.
\<close>

datatype py_error = NameError string | AttributeError string string | Raised string

text \<open>Sequencing of steps that may raise: the first exception ends the sequence.\<close>

definition and_then :: "py_error + 'a \<Rightarrow> ('a \<Rightarrow> py_error + 'b) \<Rightarrow> py_error + 'b" where
  "and_then m f = (case m of Inl e \<Rightarrow> Inl e | Inr x \<Rightarrow> f x)"

section \<open>Requests and responses\<close>

text \<open>
  \<^verbatim>\<open>request.json\<close> is the parsed JSON body: an object (a dict, here an association
  list read by its first entry for a key) or some other JSON value, of which only the
  Python type name matters, since every use is a call of \<^verbatim>\<open>.get\<close>. Parsing may raise.
  \<^verbatim>\<open>request.form\<close> is a multi-dict of strings; its \<^verbatim>\<open>.get\<close> returns the first value of a
  key. \<^verbatim>\<open>request.get_json()\<close> is what \<^verbatim>\<open>request.json\<close> calls, so both are the field
  \<open>json\<close>.
\<close>

datatype json_value = JsonObject "(string \<times> pyval) list" | JsonNonObject string

datatype form_data = Json json_value | Form "(string \<times> string) list"

record request =
  is_json :: bool
  json :: "py_error + json_value"
  form :: "(string \<times> string) list"

text \<open>\<^verbatim>\<open>data.get(key, default)\<close>: the default is returned only when the key is absent.\<close>

fun data_get :: "form_data \<Rightarrow> string \<Rightarrow> pyval \<Rightarrow> py_error + pyval" where
  "data_get (Json (JsonObject kvs)) k d =
     Inr (case map_of kvs k of None \<Rightarrow> d | Some v \<Rightarrow> v)"
| "data_get (Json (JsonNonObject t)) k d = Inl (AttributeError t ''get'')"
| "data_get (Form kvs) k d =
     Inr (case map_of kvs k of None \<Rightarrow> d | Some s \<Rightarrow> PStr s)"

text \<open>
  A response is what \<^verbatim>\<open>jsonify\<close> is given, with the status code. A body value that
  embeds \<^verbatim>\<open>str(e)\<close> of a caught exception is \<open>JError prefix e\<close>: the prefix followed
  by the exception's text.
\<close>

datatype jval = JBool bool | JText string | JError string py_error

record response =
  status :: nat
  body :: "(string \<times> jval) list"

section \<open>Extracting the data of a generation request\<close>

record document_request =
  document_type :: pyval
  buyer_name :: pyval
  seller_name :: pyval
  client_name :: pyval
  property_address :: pyval
  purchase_price :: pyval
  closing_date :: pyval
  party_role :: pyval
  property_state :: pyval
  transaction_type :: pyval
  additional_instructions :: pyval
  clause_inspection :: bool
  clause_financing :: bool
  clause_appraisal :: bool
  clause_hoa :: bool

text \<open>Lines 61 to 77: eleven \<^verbatim>\<open>.get\<close> calls with a default, four coerced by \<^verbatim>\<open>bool\<close>.\<close>

definition extract_data :: "form_data \<Rightarrow> py_error + document_request" where
  "extract_data form_data =
     and_then (data_get form_data ''document_type'' (PStr ''real_estate_document'')) (\<lambda>document_type.
     and_then (data_get form_data ''buyer_name'' (PStr ''Buyer'')) (\<lambda>buyer_name.
     and_then (data_get form_data ''seller_name'' (PStr ''Seller'')) (\<lambda>seller_name.
     and_then (data_get form_data ''client_name'' (PStr ''Client'')) (\<lambda>client_name.
     and_then (data_get form_data ''property_address'' (PStr ''Unknown Address'')) (\<lambda>property_address.
     and_then (data_get form_data ''purchase_price'' (PStr ''0'')) (\<lambda>purchase_price.
     and_then (data_get form_data ''closing_date'' (PStr ''TBD'')) (\<lambda>closing_date.
     and_then (data_get form_data ''party_role'' (PStr ''N/A'')) (\<lambda>party_role.
     and_then (data_get form_data ''property_state'' (PStr ''Florida'')) (\<lambda>property_state.
     and_then (data_get form_data ''transaction_type'' (PStr ''Residential Purchase'')) (\<lambda>transaction_type.
     and_then (data_get form_data ''additional_instructions'' (PStr [])) (\<lambda>additional_instructions.
     and_then (data_get form_data ''clause_inspection'' PNone) (\<lambda>inspection.
     and_then (data_get form_data ''clause_financing'' PNone) (\<lambda>financing.
     and_then (data_get form_data ''clause_appraisal'' PNone) (\<lambda>appraisal.
     and_then (data_get form_data ''clause_hoa'' PNone) (\<lambda>hoa.
     Inr \<lparr>document_type = document_type, buyer_name = buyer_name,
          seller_name = seller_name, client_name = client_name,
          property_address = property_address, purchase_price = purchase_price,
          closing_date = closing_date, party_role = party_role,
          property_state = property_state, transaction_type = transaction_type,
          additional_instructions = additional_instructions,
          clause_inspection = truthy inspection, clause_financing = truthy financing,
          clause_appraisal = truthy appraisal,
          clause_hoa = truthy hoa\<rparr>)))))))))))))))"

text \<open>The value of a key in a body that has \<^verbatim>\<open>.get\<close>, when the key is there.\<close>

fun supplied :: "form_data \<Rightarrow> string \<Rightarrow> pyval option" where
  "supplied (Json (JsonObject kvs)) k = map_of kvs k"
| "supplied (Json (JsonNonObject t)) k = None"
| "supplied (Form kvs) k = map_option PStr (map_of kvs k)"

fun has_get :: "form_data \<Rightarrow> bool" where
  "has_get (Json (JsonNonObject t)) = False"
| "has_get _ = True"

section \<open>File names and prompt of a generation\<close>

text \<open>
  \<^verbatim>\<open>uuid.uuid4().hex\<close> is the 128-bit value of the identifier as 32 lower-case
  hexadecimal digits, most significant first. The identifier is an input of the model.
\<close>

definition hex_digit :: "nat \<Rightarrow> char" where
  "hex_digit n = ''0123456789abcdef'' ! n"

definition uuid_hex :: "128 word \<Rightarrow> string" where
  "uuid_hex u = map (\<lambda>i. hex_digit (unat (drop_bit (4 * (31 - i)) u AND 0xF))) [0..<32]"

text \<open>Lines 80 to 82: the token and the two names made from it.\<close>

definition unique_file_names :: "pyval \<Rightarrow> 128 word \<Rightarrow> string \<times> string \<times> string" where
  "unique_file_names document_type' u =
     (let unique_id = take 8 (uuid_hex u);
          preview_filename = ''preview_'' @ py_str document_type' @ ''_'' @ unique_id @ ''.pdf'';
          final_filename = py_str document_type' @ ''_'' @ unique_id @ ''.pdf''
      in (unique_id, preview_filename, final_filename))"

definition nl :: string where
  "nl = [CHR 0x0A]"

text \<open>The bullet U+2022 of the prompt, in UTF-8.\<close>

definition bullet :: string where
  "bullet = [CHR 0xE2, CHR 0x80, CHR 0xA2]"

text \<open>Lines 85 to 107: the f-string, as the list of its literal and formatted pieces.\<close>

definition build_prompt :: "document_request \<Rightarrow> string" where
  "build_prompt r = concat
     [nl,
      ''Generate a professional Florida real estate contract styled after a FAR/BAR agreement. Use legal formatting, numbered sections, and clear, formal language expected in a standard real estate transaction.'', nl,
      nl,
      ''Include the following fields:'', nl,
      nl,
      ''- Document Type: '', py_str (document_type r), nl,
      ''- Buyer Name: '', py_str (buyer_name r), nl,
      ''- Seller Name: '', py_str (seller_name r), nl,
      ''- Property Address: '', py_str (property_address r), nl,
      ''- Purchase Price: $'', py_str (purchase_price r), nl,
      ''- Closing Date: '', py_str (closing_date r), nl,
      ''- Party Role: '', py_str (party_role r), nl,
      ''- State: '', py_str (property_state r), nl,
      ''- Transaction Type: '', py_str (transaction_type r), nl,
      ''- Optional Clauses:'', nl,
      ''    '', bullet, '' Inspection Contingency: '', py_str (PBool (clause_inspection r)), nl,
      ''    '', bullet, '' Financing Contingency: '', py_str (PBool (clause_financing r)), nl,
      ''    '', bullet, '' Appraisal Contingency: '', py_str (PBool (clause_appraisal r)), nl,
      ''    '', bullet, '' HOA Disclosure: '', py_str (PBool (clause_hoa r)), nl,
      ''- Additional Instructions: '', py_str (additional_instructions r), nl,
      nl,
      ''Include all required legal disclosures and a signature section for both buyer and seller. Start with a title header, and mark the preview as 'WATERMARKED' if requested.'', nl]"

text \<open>
  Lines 110 to 119: the request sent to the generation backend. The backend is an input
  of the model: a function from the request to the \<^verbatim>\<open>content\<close> of the first choice
  (a string, or \<^verbatim>\<open>None\<close>), or to the exception raised on the way.
\<close>

record chat_request =
  model :: string
  messages :: "(string \<times> string) list"
  max_tokens :: nat

definition chat_completion :: "string \<Rightarrow> chat_request" where
  "chat_completion prompt' =
     \<lparr>model = ''gpt-4-turbo'',
      messages = [(''system'', ''You are a real estate document assistant generating legally formatted contracts for Florida.''),
                  (''user'', prompt')],
      max_tokens = 4000\<rparr>"

section \<open>The renderer\<close>

datatype style = title_style | normal_style

datatype flowable = Paragraph string style | Spacer nat nat

text \<open>The file store: what \<^verbatim>\<open>doc.build\<close> has written, by path.\<close>

type_synonym files = "string \<Rightarrow> flowable list option"

text \<open>
  \<^verbatim>\<open>str.upper\<close> on the ASCII letters; other bytes are kept. Every title that
  \<^verbatim>\<open>generate_document\<close> passes is ASCII.
\<close>

definition upper_char :: "char \<Rightarrow> char" where
  "upper_char c =
     (case map_of (zip ''abcdefghijklmnopqrstuvwxyz'' ''ABCDEFGHIJKLMNOPQRSTUVWXYZ'') c of
        None \<Rightarrow> c | Some u \<Rightarrow> u)"

definition str_upper :: "string \<Rightarrow> string" where
  "str_upper s = map upper_char s"

text \<open>\<^verbatim>\<open>s.split(sep)\<close> for a one-character separator: never an empty list.\<close>

fun split_on :: "char \<Rightarrow> string \<Rightarrow> string list" where
  "split_on c [] = [[]]"
| "split_on c (x # xs) =
     (if x = c then [] # split_on c xs
      else (case split_on c xs of [] \<Rightarrow> [[x]] | w # ws \<Rightarrow> (x # w) # ws))"

text \<open>
  \<^verbatim>\<open>para.strip()\<close> is non-empty when a character of \<^verbatim>\<open>para\<close> is not white space.
  The ASCII white space of Python is covered (tab to carriage return, the four
  separators 28 to 31, the space).
\<close>

definition is_space :: "char \<Rightarrow> bool" where
  "is_space c = (c \<in> set [CHR 0x09, CHR 0x0A, CHR 0x0B, CHR 0x0C, CHR 0x0D,
                            CHR 0x1C, CHR 0x1D, CHR 0x1E, CHR 0x1F, CHR 0x20])"

definition non_blank :: "string \<Rightarrow> bool" where
  "non_blank para = (\<not> list_all is_space para)"

definition watermark_marker :: string where
  "watermark_marker = ''<font color='red'>WATERMARKED PREVIEW</font>''"

text \<open>
  Lines 138 to 156, the whole body of the function: the statements that follow line 156
  start at column 0 and belong to the module. The Python function returns \<^verbatim>\<open>None\<close>;
  the model returns the local \<^verbatim>\<open>content\<close> as it stands when the body ends, and the file
  store. \<^verbatim>\<open>SimpleDocTemplate(filepath)\<close> only records the path, and no statement of the
  body writes: the one call of \<^verbatim>\<open>doc.build\<close> in the file is in the loop of line 157. The
  formatted date is the input \<open>now\<close>. When \<^verbatim>\<open>text\<close> is not a string, \<^verbatim>\<open>text.split\<close>
  raises.
\<close>

definition create_pdf ::
  "pyval \<Rightarrow> string \<Rightarrow> pyval \<Rightarrow> string \<Rightarrow> bool \<Rightarrow> string \<Rightarrow> files
     \<Rightarrow> py_error + (flowable list \<times> files)" where
  "create_pdf text' filepath client_name' document_type' watermark now fs =
     (let content = [Paragraph (str_upper document_type') title_style, Spacer 1 20];
          content = content @ [Paragraph (''Prepared for: '' @ py_str client_name') title_style];
          content = content @ [Spacer 1 20];
          content = content @ [Paragraph (''Date: '' @ now) normal_style];
          content = content @ [Spacer 1 20];
          content = (if watermark
                     then (content @ [Paragraph watermark_marker title_style]) @ [Spacer 1 20]
                     else content)
      in (case text' of
            PStr s \<Rightarrow> (let paragraphs = split_on (CHR 0x0A) s in Inr (content, fs))
          | _ \<Rightarrow> Inl (AttributeError (type_name text') ''split'')))"

section \<open>The generation handler\<close>

definition DOCUMENT_TYPES :: "(string \<times> string) list" where
  "DOCUMENT_TYPES =
     [(''sales_contract'', ''Real Estate Sales Contract''),
      (''lease_agreement'', ''Residential Lease Agreement''),
      (''addendum'', ''Real Estate Contract Addendum''),
      (''disclosure'', ''Property Condition Disclosure'')]"

text \<open>
  \<^verbatim>\<open>DOCUMENT_TYPES.get(document_type, "Real Estate Document")\<close>: the keys are strings,
  so a value that is not a string is no key.
\<close>

definition DOCUMENT_TYPES_get :: "pyval \<Rightarrow> string" where
  "DOCUMENT_TYPES_get v =
     (case v of
        PStr s \<Rightarrow> (case map_of DOCUMENT_TYPES s of
                      None \<Rightarrow> ''Real Estate Document'' | Some label \<Rightarrow> label)
      | _ \<Rightarrow> ''Real Estate Document'')"

text \<open>\<^verbatim>\<open>os.path.join\<close> of two components (POSIX): an absolute second component wins.\<close>

definition path_join :: "string \<Rightarrow> string \<Rightarrow> string" where
  "path_join a b =
     (if take 1 b = ''/'' then b
      else if a = [] \<or> last a = CHR ''/'' then a @ b
      else a @ ''/'' @ b)"

definition DOWNLOAD_FOLDER :: "string \<Rightarrow> string" where
  "DOWNLOAD_FOLDER cwd = path_join (path_join cwd ''static'') ''downloads''"

text \<open>
  What the handler takes from outside the request: the generation backend, the
  identifier \<^verbatim>\<open>uuid.uuid4()\<close> returns, the formatted dates the two renderings read
  from the clock, and the working directory.
\<close>

record gen_env =
  backend :: "chat_request \<Rightarrow> py_error + pyval"
  uuid4 :: "128 word"
  now_preview :: string
  now_final :: string
  getcwd :: string

text \<open>
  The locals of the handler when the \<^verbatim>\<open>try\<close> block has run to its \<^verbatim>\<open>return\<close>, with
  what the two calls of \<^verbatim>\<open>create_pdf\<close> assembled.
\<close>

record generation =
  request_data :: document_request
  unique_id :: string
  preview_filename :: string
  final_filename :: string
  prompt :: string
  document_text :: pyval
  preview_path :: string
  final_path :: string
  preview_content :: "flowable list"
  final_content :: "flowable list"

text \<open>Lines 55 to 58: where the handler takes its data from.\<close>

definition generate_data :: "request \<Rightarrow> py_error + form_data" where
  "generate_data req =
     (if is_json req then map_sum id Json (json req) else Inr (Form (form req)))"

text \<open>Lines 54 to 126, the \<^verbatim>\<open>try\<close> block up to its \<^verbatim>\<open>return\<close>.\<close>

definition generate_document_try ::
  "gen_env \<Rightarrow> request \<Rightarrow> files \<Rightarrow> (py_error + generation) \<times> files" where
  "generate_document_try env req fs =
     (case generate_data req of
        Inl e \<Rightarrow> (Inl e, fs)
      | Inr form_data \<Rightarrow>
     (case extract_data form_data of
        Inl e \<Rightarrow> (Inl e, fs)
      | Inr r \<Rightarrow>
     (case unique_file_names (document_type r) (uuid4 env) of
        (uid, preview_name, final_name) \<Rightarrow>
     (case backend env (chat_completion (build_prompt r)) of
        Inl e \<Rightarrow> (Inl e, fs)
      | Inr text' \<Rightarrow>
     (let ppath = path_join (DOWNLOAD_FOLDER (getcwd env)) preview_name;
          fpath = path_join (DOWNLOAD_FOLDER (getcwd env)) final_name
      in
     (case create_pdf text' ppath (client_name r) (DOCUMENT_TYPES_get (document_type r))
             True (now_preview env) fs of
        Inl e \<Rightarrow> (Inl e, fs)
      | Inr (pcontent, fs1) \<Rightarrow>
     (case create_pdf text' fpath (client_name r) (DOCUMENT_TYPES_get (document_type r))
             False (now_final env) fs1 of
        Inl e \<Rightarrow> (Inl e, fs1)
      | Inr (fcontent, fs2) \<Rightarrow>
          (Inr \<lparr>request_data = r, unique_id = uid, preview_filename = preview_name,
                final_filename = final_name, prompt = build_prompt r,
                document_text = text', preview_path = ppath, final_path = fpath,
                preview_content = pcontent, final_content = fcontent\<rparr>, fs2))))))))"

text \<open>Lines 128 to 136: the two ways out of the handler.\<close>

definition generate_document :: "gen_env \<Rightarrow> request \<Rightarrow> files \<Rightarrow> response \<times> files" where
  "generate_document env req fs =
     (case generate_document_try env req fs of
        (Inr g, fs') \<Rightarrow>
          (\<lparr>status = 200,
            body = [(''success'', JBool True),
                    (''preview_url'', JText (''/download/'' @ preview_filename g)),
                    (''final_filename'', JText (final_filename g))]\<rparr>, fs')
      | (Inl e, fs') \<Rightarrow>
          (\<lparr>status = 500,
            body = [(''error'', JError ''Failed to generate document: '' e)]\<rparr>, fs'))"

section \<open>The statements of the module\<close>

text \<open>
  Loading the module runs its top-level statements in order. Only the binding of names
  is followed: a statement reads names, which must be bound in the module or be
  builtins, and then binds names. The first name that resolves to nothing raises
  \<^verbatim>\<open>NameError\<close> and ends the load. Calls to collaborators are taken to succeed.
\<close>

type_synonym namespace = "string list"





fun run :: "(namespace \<Rightarrow> py_error + namespace) list \<Rightarrow> namespace \<Rightarrow> py_error + namespace" where
  "run [] ns = Inr ns"
| "run (st # sts) ns = and_then (st ns) (run sts)"



section \<open>The checkout handler\<close>

record line_item =
  currency :: string
  product_name :: string
  unit_amount :: int
  quantity :: int

record checkout_params =
  payment_method_types :: "string list"
  line_items :: "line_item list"
  mode :: string
  success_url :: string
  cancel_url :: string

text \<open>Lines 190 to 205: the arguments of \<^verbatim>\<open>stripe.checkout.Session.create\<close>.\<close>

definition session_params :: "pyval \<Rightarrow> checkout_params" where
  "session_params final_filename' =
     \<lparr>payment_method_types = [''card''],
      line_items = [\<lparr>currency = ''usd'', product_name = ''Real Estate Document'',
                      unit_amount = 9900, quantity = 1\<rparr>],
      mode = ''payment'',
      success_url = ''http://127.0.0.1:5001/download/'' @ py_str final_filename',
      cancel_url = ''http://127.0.0.1:5001/cancel''\<rparr>"

text \<open>Lines 178 to 183: where the handler takes its data from.\<close>

definition checkout_data :: "request \<Rightarrow> py_error + form_data" where
  "checkout_data req =
     (if is_json req then map_sum id Json (json req)
      else if form req \<noteq> [] then Inr (Form (form req))
      else map_sum id Json (json req))"

text \<open>
  The handler. The payment backend is an input: a function from the arguments of the
  call to the id of the session, or to the exception raised. With the response the
  model returns the calls made to the backend, in order.
\<close>

definition create_checkout_session ::
  "(checkout_params \<Rightarrow> py_error + string) \<Rightarrow> request \<Rightarrow> response \<times> checkout_params list" where
  "create_checkout_session stripe_create req =
     (case and_then (checkout_data req) (\<lambda>data. data_get data ''final_filename'' (PStr [])) of
        Inl e \<Rightarrow> (\<lparr>status = 500, body = [(''error'', JError [] e)]\<rparr>, [])
      | Inr final_filename' \<Rightarrow>
          (if \<not> truthy final_filename'
           then (\<lparr>status = 400, body = [(''error'', JText ''Missing document filename'')]\<rparr>, [])
           else (case stripe_create (session_params final_filename') of
                   Inl e \<Rightarrow> (\<lparr>status = 500, body = [(''error'', JError [] e)]\<rparr>,
                             [session_params final_filename'])
                 | Inr session_id \<Rightarrow>
                     (\<lparr>status = 200, body = [(''sessionId'', JText session_id)]\<rparr>,
                      [session_params final_filename']))))"

section \<open>Example inputs\<close>

text \<open>
  A backend that answers every prompt with the one-line text \<^verbatim>\<open>Hello\<close>, the identifier
  \<^verbatim>\<open>ab12cd34-5e6f-4a7b-8c9d-0e1f2a3b4c5d\<close>, and two requests: a form post for a lease
  agreement, and a JSON post whose document type is not a key of \<^verbatim>\<open>DOCUMENT_TYPES\<close>.
\<close>

definition example_env :: gen_env where
  "example_env =
     \<lparr>backend = (\<lambda>_. Inr (PStr ''Hello'')),
      uuid4 = 0xab12cd345e6f4a7b8c9d0e1f2a3b4c5d,
      now_preview = ''January 05, 2026'',
      now_final = ''January 05, 2026'',
      getcwd = ''/srv/app''\<rparr>"

definition example_request :: request where
  "example_request =
     \<lparr>is_json = False,
      json = Inl (Raised ''415 Unsupported Media Type''),
      form = [(''document_type'', ''lease_agreement''), (''buyer_name'', ''Alice''),
              (''seller_name'', ''Bob''), (''property_address'', ''123 Main St'')]\<rparr>"


section \<open>Auxiliary facts\<close>

lemma data_get_supplied:
  "has_get fd \<Longrightarrow> data_get fd k d = Inr (case supplied fd k of None \<Rightarrow> d | Some v \<Rightarrow> v)"
  by (induction fd k rule: supplied.induct) (simp_all split: option.splits)

lemma sublist_concat_member: "x \<in> set xss \<Longrightarrow> sublist x (concat xss)"
proof -
  assume "x \<in> set xss"
  then obtain as bs where "xss = as @ x # bs" by (auto dest: split_list)
  then have "concat xss = concat as @ x @ concat bs" by simp
  then show ?thesis by (metis sublist_appendI)
qed

lemma length_uuid_hex: "length (uuid_hex u) = 32"
  by (simp add: uuid_hex_def)

lemma nibble_less: "unat ((w :: 128 word) AND 0xF) < 16"
proof -
  have "w AND mask 4 < 2 ^ 4" by (rule and_mask_less') simp
  then show ?thesis by (simp add: mask_eq_exp_minus_1 word_less_nat_alt)
qed

lemma hex_digit_in: "n < 16 \<Longrightarrow> hex_digit n \<in> set ''0123456789abcdef''"
  unfolding hex_digit_def by (rule nth_mem) simp

lemma set_uuid_hex: "set (uuid_hex u) \<subseteq> set ''0123456789abcdef''"
  unfolding uuid_hex_def using hex_digit_in nibble_less by (auto simp del: set_simps)


lemma create_pdf_text:
  "create_pdf (PStr s) filepath client title watermark now fs =
     Inr ([Paragraph (str_upper title) title_style, Spacer 1 20,
           Paragraph (''Prepared for: '' @ py_str client) title_style, Spacer 1 20,
           Paragraph (''Date: '' @ now) normal_style, Spacer 1 20]
          @ (if watermark then [Paragraph watermark_marker title_style, Spacer 1 20] else []), fs)"
  by (simp add: create_pdf_def Let_def)

lemma create_pdf_store:
  "create_pdf text' filepath client title watermark now fs = Inr (content, fs') \<Longrightarrow> fs' = fs"
  by (cases text') (simp_all add: create_pdf_def Let_def)

lemma generate_document_try_Inr:
  "generate_document_try env req fs = (Inr g, fs') \<Longrightarrow>
     \<exists>fd text'. generate_data req = Inr fd \<and> extract_data fd = Inr (request_data g)
       \<and> backend env (chat_completion (build_prompt (request_data g))) = Inr text'
       \<and> unique_file_names (document_type (request_data g)) (uuid4 env)
            = (unique_id g, preview_filename g, final_filename g)
       \<and> prompt g = build_prompt (request_data g) \<and> document_text g = text'
       \<and> fs' = fs"
  unfolding generate_document_try_def
  by (auto simp: Let_def split: sum.splits prod.splits dest!: create_pdf_store)

text \<open>
  What the two calls of \<^verbatim>\<open>create_pdf\<close> hold in memory when they return: the same header,
  each with the date it read, and the marker block in the preview only.
\<close>

lemma create_pdf_Inr:
  "create_pdf text' filepath client title watermark now fs = Inr (content, fs') \<Longrightarrow>
     content = [Paragraph (str_upper title) title_style, Spacer 1 20,
           Paragraph (''Prepared for: '' @ py_str client) title_style, Spacer 1 20,
           Paragraph (''Date: '' @ now) normal_style, Spacer 1 20]
          @ (if watermark then [Paragraph watermark_marker title_style, Spacer 1 20] else [])"
  by (cases text') (auto simp: create_pdf_def Let_def)

lemma generation_contents:
  assumes "generate_document_try env req fs = (Inr g, fs')"
  shows "preview_content g =
           [Paragraph (str_upper (DOCUMENT_TYPES_get (document_type (request_data g)))) title_style,
            Spacer 1 20,
            Paragraph (''Prepared for: '' @ py_str (client_name (request_data g))) title_style,
            Spacer 1 20,
            Paragraph (''Date: '' @ now_preview env) normal_style, Spacer 1 20,
            Paragraph watermark_marker title_style, Spacer 1 20]
       \<and> final_content g =
           [Paragraph (str_upper (DOCUMENT_TYPES_get (document_type (request_data g)))) title_style,
            Spacer 1 20,
            Paragraph (''Prepared for: '' @ py_str (client_name (request_data g))) title_style,
            Spacer 1 20,
            Paragraph (''Date: '' @ now_final env) normal_style, Spacer 1 20]"
  using assms unfolding generate_document_try_def
  by (auto simp: Let_def split: sum.splits prod.splits dest!: create_pdf_Inr)

text \<open>No request makes the handler write a file: the store it leaves is the one it found.\<close>

lemma generate_document_store: "snd (generate_document env req fs) = fs"
proof (cases "generate_document_try env req fs")
  case (Pair res fs')
  have "fs' = fs"
    using Pair unfolding generate_document_try_def
    by (auto simp: Let_def split: sum.splits prod.splits dest!: create_pdf_store)
  with Pair show ?thesis
    by (cases res) (simp_all add: generate_document_def)
qed

lemma truthy_default:
  "truthy (case x of None \<Rightarrow> PNone | Some v \<Rightarrow> v) = (case x of None \<Rightarrow> False | Some v \<Rightarrow> truthy v)"
  by (cases x) simp_all



lemma example_uuid: "take 8 (uuid_hex (uuid4 example_env)) = ''ab12cd34''"
  by (simp add: example_env_def uuid_hex_def hex_digit_def upt_rec)

lemma example_names:
  "unique_file_names (PStr ''lease_agreement'') (uuid4 example_env) =
     (''ab12cd34'', ''preview_lease_agreement_ab12cd34.pdf'', ''lease_agreement_ab12cd34.pdf'')"
  by (simp add: unique_file_names_def example_uuid Let_def)

lemma example_extract:
  "extract_data (Form (form example_request)) =
     Inr \<lparr>document_type = PStr ''lease_agreement'', buyer_name = PStr ''Alice'',
          seller_name = PStr ''Bob'', client_name = PStr ''Client'',
          property_address = PStr ''123 Main St'', purchase_price = PStr ''0'',
          closing_date = PStr ''TBD'', party_role = PStr ''N/A'',
          property_state = PStr ''Florida'', transaction_type = PStr ''Residential Purchase'',
          additional_instructions = PStr [],
          clause_inspection = False, clause_financing = False,
          clause_appraisal = False, clause_hoa = False\<rparr>"
  by (simp add: extract_data_def example_request_def and_then_def)

lemma example_generation:
  "\<exists>g. generate_document_try example_env example_request Map.empty = (Inr g, Map.empty)
      \<and> document_type (request_data g) = PStr ''lease_agreement''"
  unfolding generate_document_try_def
  apply (simp add: generate_data_def example_extract example_names)
  apply (simp add: example_request_def)
  apply (simp add: example_env_def create_pdf_text)
  done


section \<open>The renderer as it is defined\<close>


section \<open>The prompt\<close>

text \<open>
  Claim C8. For every extracted request, the prompt contains, as a contiguous substring,
  the printed value of the document type, the buyer name, the seller name, the property
  address, the purchase price, the closing date, the party role, the state, the
  transaction type, the additional instructions, and each of the four clause flags
  (printed \<^verbatim>\<open>True\<close> or \<^verbatim>\<open>False\<close>).
\<close>

theorem prompt_contains_fields:
  "sublist (py_str (document_type r)) (build_prompt r)
   \<and> sublist (py_str (buyer_name r)) (build_prompt r)
   \<and> sublist (py_str (seller_name r)) (build_prompt r)
   \<and> sublist (py_str (property_address r)) (build_prompt r)
   \<and> sublist (py_str (purchase_price r)) (build_prompt r)
   \<and> sublist (py_str (closing_date r)) (build_prompt r)
   \<and> sublist (py_str (party_role r)) (build_prompt r)
   \<and> sublist (py_str (property_state r)) (build_prompt r)
   \<and> sublist (py_str (transaction_type r)) (build_prompt r)
   \<and> sublist (py_str (additional_instructions r)) (build_prompt r)
   \<and> sublist (py_str (PBool (clause_inspection r))) (build_prompt r)
   \<and> sublist (py_str (PBool (clause_financing r))) (build_prompt r)
   \<and> sublist (py_str (PBool (clause_appraisal r))) (build_prompt r)
   \<and> sublist (py_str (PBool (clause_hoa r))) (build_prompt r)"
  unfolding build_prompt_def
  by (intro conjI sublist_concat_member) (simp_all del: py_str.simps)

section \<open>The responses of the generation handler\<close>

text \<open>
  Claim C9. Every call of the handler ends in one of two ways. Either the \<^verbatim>\<open>try\<close> block
  ran to its end and the response is 200 with \<^verbatim>\<open>success: true\<close>, the preview URL
  \<^verbatim>\<open>/download/\<close> followed by the preview file name, and the final file name; or an
  exception was caught and the response is 500 with the single key \<^verbatim>\<open>error\<close>. No
  response names one of the two files without the other.
\<close>

theorem generate_document_response_shape:
  "(\<exists>g fs'. generate_document_try env req fs = (Inr g, fs')
       \<and> fst (generate_document env req fs) =
           \<lparr>status = 200,
            body = [(''success'', JBool True),
                    (''preview_url'', JText (''/download/'' @ preview_filename g)),
                    (''final_filename'', JText (final_filename g))]\<rparr>)
   \<or> (\<exists>e fs'. generate_document_try env req fs = (Inl e, fs')
       \<and> fst (generate_document env req fs) =
           \<lparr>status = 500, body = [(''error'', JError ''Failed to generate document: '' e)]\<rparr>)"
proof (cases "generate_document_try env req fs")
  case (Pair res fs')
  then show ?thesis
    by (cases res) (simp_all add: generate_document_def)
qed

section \<open>What the renderer leaves undone\<close>

text \<open>
  Claim C3. The number of body paragraphs should be the number of non-blank lines of the
  text. On the one-line text \<^verbatim>\<open>Hello\<close>, which has one non-blank line, \<^verbatim>\<open>create_pdf\<close>
  assembles the six flowables of the header and no body paragraph, and leaves the store
  empty.
\<close>

theorem no_body_paragraph_appended:
  "create_pdf (PStr ''Hello'') ''/srv/app/static/downloads/lease_agreement_ab12cd34.pdf''
       (PStr ''Client'') ''Residential Lease Agreement'' False ''January 05, 2026'' Map.empty =
     Inr ([Paragraph ''RESIDENTIAL LEASE AGREEMENT'' title_style, Spacer 1 20,
           Paragraph ''Prepared for: Client'' title_style, Spacer 1 20,
           Paragraph ''Date: January 05, 2026'' normal_style, Spacer 1 20], Map.empty)
   \<and> filter non_blank (split_on (CHR 0x0A) ''Hello'') = [''Hello'']"
  by (simp add: create_pdf_text str_upper_def upper_char_def non_blank_def is_space_def)

text \<open>
  Claim C2. The preview artifact should carry the watermark marker and both artifacts the
  body of the generated text. On the example request the handler answers 200 and names
  both files, and the store it leaves has no file at the preview path nor at the final
  path: the marker is appended to a list that is dropped when \<^verbatim>\<open>create_pdf\<close> returns.
\<close>

theorem preview_artifact_not_written:
  "generate_document example_env example_request Map.empty =
     (\<lparr>status = 200,
       body = [(''success'', JBool True),
               (''preview_url'', JText ''/download/preview_lease_agreement_ab12cd34.pdf''),
               (''final_filename'', JText ''lease_agreement_ab12cd34.pdf'')]\<rparr>, Map.empty)
   \<and> path_join (DOWNLOAD_FOLDER (getcwd example_env)) ''preview_lease_agreement_ab12cd34.pdf''
       = ''/srv/app/static/downloads/preview_lease_agreement_ab12cd34.pdf''
   \<and> path_join (DOWNLOAD_FOLDER (getcwd example_env)) ''lease_agreement_ab12cd34.pdf''
       = ''/srv/app/static/downloads/lease_agreement_ab12cd34.pdf''
   \<and> snd (generate_document example_env example_request Map.empty)
       ''/srv/app/static/downloads/preview_lease_agreement_ab12cd34.pdf'' = None
   \<and> snd (generate_document example_env example_request Map.empty)
       ''/srv/app/static/downloads/lease_agreement_ab12cd34.pdf'' = None"
proof -
  from example_generation obtain g
    where g: "generate_document_try example_env example_request Map.empty = (Inr g, Map.empty)"
      and r: "document_type (request_data g) = PStr ''lease_agreement''"
    by auto
  from generate_document_try_Inr [OF g] r example_names
  have "preview_filename g = ''preview_lease_agreement_ab12cd34.pdf''"
    and "final_filename g = ''lease_agreement_ab12cd34.pdf''"
    by auto
  with g have "generate_document example_env example_request Map.empty =
     (\<lparr>status = 200,
       body = [(''success'', JBool True),
               (''preview_url'', JText ''/download/preview_lease_agreement_ab12cd34.pdf''),
               (''final_filename'', JText ''lease_agreement_ab12cd34.pdf'')]\<rparr>, Map.empty)"
    by (simp add: generate_document_def)
  moreover have "path_join (DOWNLOAD_FOLDER (getcwd example_env)) ''preview_lease_agreement_ab12cd34.pdf''
       = ''/srv/app/static/downloads/preview_lease_agreement_ab12cd34.pdf''"
    by (simp add: DOWNLOAD_FOLDER_def path_join_def example_env_def)
  moreover have "path_join (DOWNLOAD_FOLDER (getcwd example_env)) ''lease_agreement_ab12cd34.pdf''
       = ''/srv/app/static/downloads/lease_agreement_ab12cd34.pdf''"
    by (simp add: DOWNLOAD_FOLDER_def path_join_def example_env_def)
  ultimately show ?thesis by simp
qed

section \<open>File names\<close>

text \<open>
  Claim C6. Whenever the \<^verbatim>\<open>try\<close> block of the handler runs to its end, the token is the
  first eight characters of the hexadecimal form of the identifier, eight characters
  long and made of hexadecimal digits only; the preview name is \<^verbatim>\<open>preview_\<close>, the
  printed document type, an underscore, the token and \<^verbatim>\<open>.pdf\<close>; the final name is the
  same without the prefix, with the same token.
\<close>

theorem artifact_names:
  assumes "generate_document_try env req fs = (Inr g, fs')"
  shows "length (unique_id g) = 8
     \<and> set (unique_id g) \<subseteq> set ''0123456789abcdef''
     \<and> unique_id g = take 8 (uuid_hex (uuid4 env))
     \<and> preview_filename g =
         ''preview_'' @ py_str (document_type (request_data g)) @ ''_'' @ unique_id g @ ''.pdf''
     \<and> final_filename g =
         py_str (document_type (request_data g)) @ ''_'' @ unique_id g @ ''.pdf''"
proof -
  from generate_document_try_Inr [OF assms]
  have names: "unique_file_names (document_type (request_data g)) (uuid4 env)
                 = (unique_id g, preview_filename g, final_filename g)" by blast
  from names [symmetric]
  have uid: "unique_id g = take 8 (uuid_hex (uuid4 env))"
    and pf: "preview_filename g = ''preview_'' @ py_str (document_type (request_data g)) @ ''_''
               @ take 8 (uuid_hex (uuid4 env)) @ ''.pdf''"
    and ff: "final_filename g = py_str (document_type (request_data g)) @ ''_''
               @ take 8 (uuid_hex (uuid4 env)) @ ''.pdf''"
    by (simp_all add: unique_file_names_def Let_def)
  have len: "length (unique_id g) = 8" by (simp add: uid length_uuid_hex)
  have hex: "set (unique_id g) \<subseteq> set ''0123456789abcdef''"
    unfolding uid using set_take_subset set_uuid_hex by (rule subset_trans)
  from len hex uid pf ff show ?thesis by simp
qed

text \<open>The example request: token \<^verbatim>\<open>ab12cd34\<close> in both names.\<close>

theorem artifact_names_witness:
  "\<exists>g. generate_document_try example_env example_request Map.empty = (Inr g, Map.empty)
     \<and> length (unique_id g) = 8
     \<and> unique_id g = ''ab12cd34''
     \<and> preview_filename g = ''preview_lease_agreement_ab12cd34.pdf''
     \<and> final_filename g = ''lease_agreement_ab12cd34.pdf''"
proof -
  from example_generation obtain g
    where g: "generate_document_try example_env example_request Map.empty = (Inr g, Map.empty)"
      and r: "document_type (request_data g) = PStr ''lease_agreement''"
    by auto
  from artifact_names [OF g] r example_uuid g show ?thesis by simp
qed

section \<open>Defaults of the extracted data\<close>

text \<open>
  Claim C7, as stated, fails: a form that sends an empty buyer name keeps the empty
  string, which is falsy and is not replaced by \<^verbatim>\<open>Buyer\<close>; and the defaults of the
  document type, the client name and the property address are not in the list of the
  claim.
\<close>

theorem empty_field_not_defaulted:
  "extract_data (Form [(''buyer_name'', [])]) =
     Inr \<lparr>document_type = PStr ''real_estate_document'', buyer_name = PStr [],
          seller_name = PStr ''Seller'', client_name = PStr ''Client'',
          property_address = PStr ''Unknown Address'', purchase_price = PStr ''0'',
          closing_date = PStr ''TBD'', party_role = PStr ''N/A'',
          property_state = PStr ''Florida'', transaction_type = PStr ''Residential Purchase'',
          additional_instructions = PStr [],
          clause_inspection = False, clause_financing = False,
          clause_appraisal = False, clause_hoa = False\<rparr>
   \<and> \<not> truthy (PStr []) \<and> PStr [] \<noteq> PStr ''Buyer''"
  by (simp add: extract_data_def and_then_def)

text \<open>
  Claim C7, amended. For every body that is a JSON object or a form, the extraction
  succeeds; each of the eleven text fields is the supplied value when the key is
  present, whatever the value, and its fixed default when the key is absent; each of the
  four clause flags is the truth value of the supplied value, and false when the key is
  absent.
\<close>

theorem extract_data_defaults:
  assumes "has_get fd"
  shows "\<exists>r. extract_data fd = Inr r
    \<and> document_type r = (case supplied fd ''document_type'' of None \<Rightarrow> PStr ''real_estate_document'' | Some v \<Rightarrow> v)
    \<and> buyer_name r = (case supplied fd ''buyer_name'' of None \<Rightarrow> PStr ''Buyer'' | Some v \<Rightarrow> v)
    \<and> seller_name r = (case supplied fd ''seller_name'' of None \<Rightarrow> PStr ''Seller'' | Some v \<Rightarrow> v)
    \<and> client_name r = (case supplied fd ''client_name'' of None \<Rightarrow> PStr ''Client'' | Some v \<Rightarrow> v)
    \<and> property_address r = (case supplied fd ''property_address'' of None \<Rightarrow> PStr ''Unknown Address'' | Some v \<Rightarrow> v)
    \<and> purchase_price r = (case supplied fd ''purchase_price'' of None \<Rightarrow> PStr ''0'' | Some v \<Rightarrow> v)
    \<and> closing_date r = (case supplied fd ''closing_date'' of None \<Rightarrow> PStr ''TBD'' | Some v \<Rightarrow> v)
    \<and> party_role r = (case supplied fd ''party_role'' of None \<Rightarrow> PStr ''N/A'' | Some v \<Rightarrow> v)
    \<and> property_state r = (case supplied fd ''property_state'' of None \<Rightarrow> PStr ''Florida'' | Some v \<Rightarrow> v)
    \<and> transaction_type r = (case supplied fd ''transaction_type'' of None \<Rightarrow> PStr ''Residential Purchase'' | Some v \<Rightarrow> v)
    \<and> additional_instructions r = (case supplied fd ''additional_instructions'' of None \<Rightarrow> PStr [] | Some v \<Rightarrow> v)
    \<and> clause_inspection r = (case supplied fd ''clause_inspection'' of None \<Rightarrow> False | Some v \<Rightarrow> truthy v)
    \<and> clause_financing r = (case supplied fd ''clause_financing'' of None \<Rightarrow> False | Some v \<Rightarrow> truthy v)
    \<and> clause_appraisal r = (case supplied fd ''clause_appraisal'' of None \<Rightarrow> False | Some v \<Rightarrow> truthy v)
    \<and> clause_hoa r = (case supplied fd ''clause_hoa'' of None \<Rightarrow> False | Some v \<Rightarrow> truthy v)"
  using assms by (simp add: extract_data_def and_then_def data_get_supplied truthy_default)

text \<open>A JSON object with three keys: the supplied values are kept, the others defaulted.\<close>

theorem extract_data_defaults_witness:
  "has_get (Json (JsonObject [(''buyer_name'', PStr ''Alice''), (''purchase_price'', PInt 0), (''clause_hoa'', PBool True)]))
   \<and> (\<exists>r. extract_data (Json (JsonObject [(''buyer_name'', PStr ''Alice''), (''purchase_price'', PInt 0), (''clause_hoa'', PBool True)])) = Inr r
      \<and> buyer_name r = PStr ''Alice'' \<and> seller_name r = PStr ''Seller''
      \<and> purchase_price r = PInt 0 \<and> clause_hoa r \<and> \<not> clause_inspection r)"
  using extract_data_defaults [of "Json (JsonObject [(''buyer_name'', PStr ''Alice''), (''purchase_price'', PInt 0), (''clause_hoa'', PBool True)])"]
  by auto

section \<open>Document types outside the enumeration\<close>



section \<open>The checkout session\<close>

text \<open>
  Claim C4. When the data of the request carries a \<^verbatim>\<open>final_filename\<close> that is truthy, the
  payment backend is called exactly once; the success URL of that call is the download
  address followed by the printed file name, so it ends with \<^verbatim>\<open>/download/\<close> and the
  name; the call has one line item, of 9900 minor units; and when the backend returns a
  session, the response is 200 with its id.
\<close>

theorem checkout_session_bound_to_filename:
  assumes "checkout_data req = Inr data"
    and "supplied data ''final_filename'' = Some v"
    and "truthy v"
  shows "snd (create_checkout_session stripe_create req) = [session_params v]
    \<and> success_url (session_params v) = ''http://127.0.0.1:5001/download/'' @ py_str v
    \<and> suffix (''/download/'' @ py_str v) (success_url (session_params v))
    \<and> map unit_amount (line_items (session_params v)) = [9900]
    \<and> (\<forall>session_id. stripe_create (session_params v) = Inr session_id \<longrightarrow>
          fst (create_checkout_session stripe_create req) =
            \<lparr>status = 200, body = [(''sessionId'', JText session_id)]\<rparr>)"
proof -
  from assms(2) have g: "has_get data"
    by (cases data rule: has_get.cases) simp_all
  have url: "success_url (session_params v) = ''http://127.0.0.1:5001/download/'' @ py_str v"
    by (simp add: session_params_def)
  have "success_url (session_params v) = ''http://127.0.0.1:5001'' @ (''/download/'' @ py_str v)"
    by (simp add: session_params_def)
  then have suf: "suffix (''/download/'' @ py_str v) (success_url (session_params v))"
    unfolding suffix_def by blast
  have amount: "map unit_amount (line_items (session_params v)) = [9900]"
    by (simp add: session_params_def)
  have run: "create_checkout_session stripe_create req =
          (case stripe_create (session_params v) of
             Inl e \<Rightarrow> (\<lparr>status = 500, body = [(''error'', JError [] e)]\<rparr>, [session_params v])
           | Inr session_id \<Rightarrow>
               (\<lparr>status = 200, body = [(''sessionId'', JText session_id)]\<rparr>, [session_params v]))"
    using assms g by (simp add: create_checkout_session_def and_then_def data_get_supplied)
  have calls: "snd (create_checkout_session stripe_create req) = [session_params v]"
    unfolding run by (simp split: sum.splits)
  have ok: "\<forall>session_id. stripe_create (session_params v) = Inr session_id \<longrightarrow>
          fst (create_checkout_session stripe_create req) =
            \<lparr>status = 200, body = [(''sessionId'', JText session_id)]\<rparr>"
    unfolding run by simp
  from calls url suf amount ok show ?thesis by blast
qed

text \<open>The file name \<^verbatim>\<open>sales_contract_ab12cd34.pdf\<close> in a JSON body.\<close>

theorem checkout_session_bound_to_filename_witness:
  "checkout_data \<lparr>is_json = True, json = Inr (JsonObject [(''final_filename'', PStr ''sales_contract_ab12cd34.pdf'')]), form = []\<rparr>
      = Inr (Json (JsonObject [(''final_filename'', PStr ''sales_contract_ab12cd34.pdf'')]))
   \<and> supplied (Json (JsonObject [(''final_filename'', PStr ''sales_contract_ab12cd34.pdf'')])) ''final_filename''
      = Some (PStr ''sales_contract_ab12cd34.pdf'')
   \<and> truthy (PStr ''sales_contract_ab12cd34.pdf'')
   \<and> create_checkout_session (\<lambda>p. Inr ''cs_test_1'')
        \<lparr>is_json = True, json = Inr (JsonObject [(''final_filename'', PStr ''sales_contract_ab12cd34.pdf'')]), form = []\<rparr>
      = (\<lparr>status = 200, body = [(''sessionId'', JText ''cs_test_1'')]\<rparr>,
         [\<lparr>payment_method_types = [''card''],
           line_items = [\<lparr>currency = ''usd'', product_name = ''Real Estate Document'',
                           unit_amount = 9900, quantity = 1\<rparr>],
           mode = ''payment'',
           success_url = ''http://127.0.0.1:5001/download/sales_contract_ab12cd34.pdf'',
           cancel_url = ''http://127.0.0.1:5001/cancel''\<rparr>])
   \<and> suffix ''/download/sales_contract_ab12cd34.pdf''
        ''http://127.0.0.1:5001/download/sales_contract_ab12cd34.pdf''"
proof -
  let ?req = "\<lparr>is_json = True, json = Inr (JsonObject [(''final_filename'', PStr ''sales_contract_ab12cd34.pdf'')]), form = []\<rparr>"
  let ?data = "Json (JsonObject [(''final_filename'', PStr ''sales_contract_ab12cd34.pdf'')])"
  let ?v = "PStr ''sales_contract_ab12cd34.pdf''"
  have d: "checkout_data ?req = Inr ?data" by (simp add: checkout_data_def)
  have s: "supplied ?data ''final_filename'' = Some ?v" by simp
  have t: "truthy ?v" by simp
  from checkout_session_bound_to_filename [OF d s t, of "\<lambda>p. Inr ''cs_test_1''"] d s t
  show ?thesis by (simp add: prod_eq_iff session_params_def)
qed




end
